theory Spec2Isabelle
  imports Main "HOL-Library.AList"
begin

section \<open>The storage tool facade of server.py\<close>

text \<open>
  server.py registers nine tools, each a Python function that first checks the global
  \<^verbatim>\<open>blob_service_client\<close>, then forwards to the Azure SDK inside a
  \<^verbatim>\<open>try\<close> block whose handlers turn every exception into a string.
  The model keeps that shape: every tool is an action on a world (the client with the
  storage account behind it, the local filesystem, and a trace of every SDK call and
  filesystem access), an action ends in a returned value or in a raised exception, and
  \<^verbatim>\<open>try\<close>/\<^verbatim>\<open>except\<close> is the combinator \<open>py_try\<close>.

  Strings are Python \<^verbatim>\<open>str\<close> values restricted to the code points
  U+0000..U+00FF (one \<^typ>\<open>char\<close> per code point); bytes are lists of
  \<^typ>\<open>char\<close> as well.
\<close>

subsection \<open>Exceptions\<close>

text \<open>
  The exceptions the handlers distinguish. All are subclasses of
  \<^verbatim>\<open>Exception\<close>; the argument is the text \<^verbatim>\<open>str(e)\<close> gives.
  \<open>OtherException\<close> stands for every other subclass of \<^verbatim>\<open>Exception\<close>
  (OSError, ValueError, re.error, AttributeError, other SDK errors).
\<close>

datatype exn =
    ResourceNotFoundError string
  | ResourceExistsError string
  | OtherException string

fun str_exn :: "exn \<Rightarrow> string" where
  "str_exn (ResourceNotFoundError m) = m"
| "str_exn (ResourceExistsError m) = m"
| "str_exn (OtherException m) = m"

subsection \<open>String primitives of Python used by the tools\<close>

type_synonym bytes = "char list"

text \<open>\<^verbatim>\<open>sep.join(xs)\<close>\<close>

fun join :: "string \<Rightarrow> string list \<Rightarrow> string" where
  "join sep [] = []"
| "join sep [x] = x"
| "join sep (x # y # ys) = x @ sep @ join sep (y # ys)"

text \<open>\<^verbatim>\<open>str(n)\<close> for a non-negative integer, as the f-strings format \<^verbatim>\<open>len(...)\<close>.\<close>

fun str_nat :: "nat \<Rightarrow> string" where
  "str_nat n =
     (if n < 10 then [''0123456789'' ! n]
      else str_nat (n div 10) @ [''0123456789'' ! (n mod 10)])"

declare str_nat.simps [simp del]

text \<open>
  \<^verbatim>\<open>str.lower()\<close> on the code points below U+0100: the ASCII capitals and the
  Latin-1 capitals U+00C0..U+00DE (without the multiplication sign U+00D7) move up by
  32, which sets bit 5; every other code point stays.
\<close>

definition py_lower_char :: "char \<Rightarrow> char" where
  "py_lower_char c =
     (let n = (of_char c :: nat) in
      if (65 \<le> n \<and> n \<le> 90) \<or> (192 \<le> n \<and> n \<le> 222 \<and> n \<noteq> 215)
      then Char (digit0 c) (digit1 c) (digit2 c) (digit3 c) (digit4 c) True (digit6 c) (digit7 c)
      else c)"

definition py_lower :: "string \<Rightarrow> string" where
  "py_lower s = map py_lower_char s"

text \<open>\<^verbatim>\<open>s.startswith(p)\<close>\<close>

definition startswith :: "string \<Rightarrow> string \<Rightarrow> bool" where
  "startswith s p = (take (length p) s = p)"

text \<open>
  \<^verbatim>\<open>os.path.basename\<close> of posixpath: everything after the last slash
  (\<^verbatim>\<open>p[p.rfind('/') + 1:]\<close>).
\<close>

definition basename :: "string \<Rightarrow> string" where
  "basename p = rev (takeWhile (\<lambda>c. c \<noteq> CHR ''/'') (rev p))"

text \<open>An f-string field between single quotes: \<^verbatim>\<open>'{x}'\<close>.\<close>

definition quoted :: "string \<Rightarrow> string" where
  "quoted s = [CHR 0x27] @ s @ [CHR 0x27]"

text \<open>
  \<^verbatim>\<open>repr(s)\<close>, which \<^verbatim>\<open>OSError\<close> uses to print a file name: double
  quotes when the string holds a single quote and no double quote, single quotes
  otherwise; the quote in use and the backslash are escaped with a backslash, tab,
  newline and carriage return by their letters, and the code points that are not
  printable (below U+0020, U+007F..U+00A0, U+00AD) as \<^verbatim>\<open>\xhh\<close>.
\<close>

definition hex_digit :: "nat \<Rightarrow> char" where
  "hex_digit n = ''0123456789abcdef'' ! (n mod 16)"

definition repr_quote :: "string \<Rightarrow> char" where
  "repr_quote s = (if CHR 0x27 \<in> set s \<and> CHR 0x22 \<notin> set s then CHR 0x22 else CHR 0x27)"

definition repr_char :: "char \<Rightarrow> char \<Rightarrow> string" where
  "repr_char q c =
     (let n = (of_char c :: nat) in
      if c = q \<or> c = CHR 0x5C then [CHR 0x5C, c]
      else if c = CHR 0x09 then [CHR 0x5C, CHR ''t'']
      else if c = CHR 0x0A then [CHR 0x5C, CHR ''n'']
      else if c = CHR 0x0D then [CHR 0x5C, CHR ''r'']
      else if n < 32 \<or> (127 \<le> n \<and> n \<le> 160) \<or> n = 173
      then [CHR 0x5C, CHR ''x'', hex_digit (n div 16), hex_digit n]
      else [c])"

definition py_repr :: "string \<Rightarrow> string" where
  "py_repr s = [repr_quote s] @ concat (map (repr_char (repr_quote s)) s) @ [repr_quote s]"

subsection \<open>The storage account behind the client\<close>

text \<open>
  Modelled from the spec: the Storage Client collaborator (the Azure SDK) is not part of
  the repository. The account is what spec section 3 describes: containers, unique by
  name, holding blobs, unique by name within a container; a blob carries its content and
  the properties of the metadata snapshot. Association lists keep the order in which the
  service enumerates names. Timestamps and the lease status are kept as the text
  \<^verbatim>\<open>str()\<close> gives (\<open>None\<close> for Python's \<^verbatim>\<open>None\<close>).
\<close>

record blob =
  blob_content :: bytes
  blob_content_type :: "string option"
  blob_last_modified :: "string option"
  blob_creation_time :: "string option"
  blob_lease_status :: "string option"
  blob_metadata :: "(string \<times> string) list option"

text \<open>What \<^verbatim>\<open>get_blob_properties()\<close> returns, with the attributes server.py reads.\<close>

record blob_properties =
  size_prop :: nat
  content_type :: "string option"
  last_modified :: "string option"
  creation_time :: "string option"
  lease_status :: "string option"
  metadata :: "(string \<times> string) list option"

datatype container_client = ContainerClient string
datatype blob_client = BlobClient string string
datatype downloader = StorageStreamDownloader string string bytes

text \<open>Every method of the SDK that server.py calls, with its arguments.\<close>

datatype call =
    ListContainers
  | GetContainerClient string
  | ListBlobs string "string option"
  | GetBlobClient string string
  | GetBlobProperties string string
  | CreateContainer string
  | DeleteContainer string
  | UploadBlob string string bytes bool "string option"
  | DownloadBlob string string
  | Readall string string
  | DeleteBlob string string

text \<open>
  \<open>sdk_fault\<close> is the failure the client raises for a call instead of performing it
  (a network failure, a rejected name, an expired credential); \<open>None\<close> when the call
  goes through to the account. \<open>service_clock\<close> is the timestamp the service gives
  to a blob it stores.
\<close>

record storage =
  containers :: "(string \<times> (string \<times> blob) list) list"
  sdk_fault :: "call \<Rightarrow> exn option"
  service_clock :: "string option"

subsection \<open>The local machine and the world\<close>

datatype node = File bytes | Directory

datatype io =
    Exists string
  | OpenRead string
  | OpenWrite string
  | WriteFile string bytes

datatype event = SdkCall call | FsAccess io

text \<open>
  \<open>blob_service_client\<close> is the module's global: \<open>None\<close> when the connection
  string was missing or the client could not be built. \<open>fs\<close> is the local filesystem
  (a flat map from paths to nodes), \<open>io_fault\<close> the OSError the operating system
  raises for an access (permissions, a missing directory, a full disk).
  \<open>guess_type\<close> is the first component of \<^verbatim>\<open>mimetypes.guess_type\<close> and
  \<open>re_search\<close> is \<^verbatim>\<open>re.search(pattern, string)\<close> read as a truth value, or
  the \<^verbatim>\<open>re.error\<close> it raises: both are library functions, taken as they are.
  \<open>trace\<close> records every SDK call and filesystem access, oldest first.
\<close>

record world =
  blob_service_client :: "storage option"
  fs :: "string \<Rightarrow> node option"
  io_fault :: "io \<Rightarrow> exn option"
  guess_type :: "string \<Rightarrow> string option"
  re_search :: "string \<Rightarrow> string \<Rightarrow> exn + bool"
  trace :: "event list"

type_synonym 'a action = "world \<Rightarrow> (exn + 'a) \<times> world"

subsection \<open>Control flow: return, sequencing, try/except\<close>

definition py_return :: "'a \<Rightarrow> 'a action" where
  "py_return x w = (Inr x, w)"

definition py_raise :: "exn \<Rightarrow> 'a action" where
  "py_raise e w = (Inl e, w)"

definition py_bind :: "'a action \<Rightarrow> ('a \<Rightarrow> 'b action) \<Rightarrow> 'b action" where
  "py_bind m f w = (case m w of (Inl e, w') \<Rightarrow> (Inl e, w') | (Inr x, w') \<Rightarrow> f x w')"

text \<open>\<^verbatim>\<open>try: body except Exception as e: handler(e)\<close>\<close>

definition py_try :: "'a action \<Rightarrow> (exn \<Rightarrow> 'a action) \<Rightarrow> 'a action" where
  "py_try body handler w =
     (case body w of (Inl e, w') \<Rightarrow> handler e w' | (Inr x, w') \<Rightarrow> (Inr x, w'))"

definition log_event :: "event \<Rightarrow> world \<Rightarrow> world" where
  "log_event ev w = w\<lparr>trace := trace w @ [ev]\<rparr>"

subsection \<open>The SDK methods\<close>

text \<open>
  A method call on the client: on \<^verbatim>\<open>None\<close> Python raises AttributeError; on a
  client the call is recorded, then it fails with the client's fault for it or runs on
  the account.
\<close>

definition sdk_invoke :: "call \<Rightarrow> (storage \<Rightarrow> (exn + 'a) \<times> storage) \<Rightarrow> 'a action" where
  "sdk_invoke c f w =
     (case blob_service_client w of
        None \<Rightarrow> (Inl (OtherException ''NoneType object has no such attribute''), w)
      | Some st \<Rightarrow>
          (case sdk_fault st c of
             Some e \<Rightarrow> (Inl e, log_event (SdkCall c) w)
           | None \<Rightarrow>
               (case f st of
                  (r, st') \<Rightarrow> (r, (log_event (SdkCall c) w)\<lparr>blob_service_client := Some st'\<rparr>))))"

definition no_container :: exn where
  "no_container = ResourceNotFoundError ''The specified container does not exist.''"

definition no_blob :: exn where
  "no_blob = ResourceNotFoundError ''The specified blob does not exist.''"

definition container_exists :: exn where
  "container_exists = ResourceExistsError ''The specified container already exists.''"

definition blob_exists :: exn where
  "blob_exists = ResourceExistsError ''The specified blob already exists.''"

definition find_blob :: "storage \<Rightarrow> string \<Rightarrow> string \<Rightarrow> exn + blob" where
  "find_blob st c b =
     (case map_of (containers st) c of
        None \<Rightarrow> Inl no_container
      | Some bs \<Rightarrow> (case map_of bs b of None \<Rightarrow> Inl no_blob | Some bl \<Rightarrow> Inr bl))"

definition properties_of :: "blob \<Rightarrow> blob_properties" where
  "properties_of bl =
     \<lparr> size_prop = length (blob_content bl),
       content_type = blob_content_type bl,
       last_modified = blob_last_modified bl,
       creation_time = blob_creation_time bl,
       lease_status = blob_lease_status bl,
       metadata = blob_metadata bl \<rparr>"

definition sdk_list_containers :: "string list action" where
  "sdk_list_containers =
     sdk_invoke ListContainers (\<lambda>st. (Inr (map fst (containers st)), st))"

definition sdk_get_container_client :: "string \<Rightarrow> container_client action" where
  "sdk_get_container_client c =
     sdk_invoke (GetContainerClient c) (\<lambda>st. (Inr (ContainerClient c), st))"

definition sdk_get_blob_client :: "string \<Rightarrow> string \<Rightarrow> blob_client action" where
  "sdk_get_blob_client c b =
     sdk_invoke (GetBlobClient c b) (\<lambda>st. (Inr (BlobClient c b), st))"

text \<open>\<^verbatim>\<open>name_starts_with\<close> is optional in the SDK; absent or empty, every name is listed.\<close>

fun sdk_list_blobs :: "container_client \<Rightarrow> string option \<Rightarrow> string list action" where
  "sdk_list_blobs (ContainerClient c) name_starts_with =
     sdk_invoke (ListBlobs c name_starts_with)
       (\<lambda>st. case map_of (containers st) c of
                None \<Rightarrow> (Inl no_container, st)
              | Some bs \<Rightarrow>
                  (Inr (filter (\<lambda>n. startswith n (case name_starts_with of None \<Rightarrow> [] | Some p \<Rightarrow> p))
                          (map fst bs)), st))"

fun sdk_get_blob_properties :: "blob_client \<Rightarrow> blob_properties action" where
  "sdk_get_blob_properties (BlobClient c b) =
     sdk_invoke (GetBlobProperties c b)
       (\<lambda>st. case find_blob st c b of
                Inl e \<Rightarrow> (Inl e, st)
              | Inr bl \<Rightarrow> (Inr (properties_of bl), st))"

definition sdk_create_container :: "string \<Rightarrow> unit action" where
  "sdk_create_container c =
     sdk_invoke (CreateContainer c)
       (\<lambda>st. case map_of (containers st) c of
                Some bs \<Rightarrow> (Inl container_exists, st)
              | None \<Rightarrow> (Inr (), st\<lparr>containers := containers st @ [(c, [])]\<rparr>))"

definition sdk_delete_container :: "string \<Rightarrow> unit action" where
  "sdk_delete_container c =
     sdk_invoke (DeleteContainer c)
       (\<lambda>st. case map_of (containers st) c of
                None \<Rightarrow> (Inl no_container, st)
              | Some bs \<Rightarrow> (Inr (), st\<lparr>containers := AList.delete c (containers st)\<rparr>))"

definition new_blob :: "storage \<Rightarrow> bytes \<Rightarrow> string option \<Rightarrow> blob" where
  "new_blob st data ct =
     \<lparr> blob_content = data,
       blob_content_type = ct,
       blob_last_modified = service_clock st,
       blob_creation_time = service_clock st,
       blob_lease_status = Some ''unlocked'',
       blob_metadata = None \<rparr>"

fun sdk_upload_blob ::
  "container_client \<Rightarrow> string \<Rightarrow> bytes \<Rightarrow> bool \<Rightarrow> string option \<Rightarrow> blob_client action" where
  "sdk_upload_blob (ContainerClient c) name data overwrite ct =
     sdk_invoke (UploadBlob c name data overwrite ct)
       (\<lambda>st. case map_of (containers st) c of
                None \<Rightarrow> (Inl no_container, st)
              | Some bs \<Rightarrow>
                  (if map_of bs name \<noteq> None \<and> \<not> overwrite then (Inl blob_exists, st)
                   else (Inr (BlobClient c name),
                         st\<lparr>containers :=
                              AList.update c (AList.update name (new_blob st data ct) bs)
                                (containers st)\<rparr>)))"

fun sdk_download_blob :: "blob_client \<Rightarrow> downloader action" where
  "sdk_download_blob (BlobClient c b) =
     sdk_invoke (DownloadBlob c b)
       (\<lambda>st. case find_blob st c b of
                Inl e \<Rightarrow> (Inl e, st)
              | Inr bl \<Rightarrow> (Inr (StorageStreamDownloader c b (blob_content bl)), st))"

fun sdk_readall :: "downloader \<Rightarrow> bytes action" where
  "sdk_readall (StorageStreamDownloader c b data) =
     sdk_invoke (Readall c b) (\<lambda>st. (Inr data, st))"

fun sdk_delete_blob :: "blob_client \<Rightarrow> unit action" where
  "sdk_delete_blob (BlobClient c b) =
     sdk_invoke (DeleteBlob c b)
       (\<lambda>st. case map_of (containers st) c of
                None \<Rightarrow> (Inl no_container, st)
              | Some bs \<Rightarrow>
                  (case map_of bs b of
                     None \<Rightarrow> (Inl no_blob, st)
                   | Some bl \<Rightarrow>
                       (Inr (),
                        st\<lparr>containers := AList.update c (AList.delete b bs) (containers st)\<rparr>)))"

subsection \<open>The local filesystem calls\<close>

text \<open>
  \<^verbatim>\<open>os.path.exists\<close> never raises: it answers False when the path is absent or when
  the operating system refuses the lookup.
\<close>

definition os_path_exists :: "string \<Rightarrow> bool action" where
  "os_path_exists p w =
     (Inr (fs w p \<noteq> None \<and> io_fault w (Exists p) = None), log_event (FsAccess (Exists p)) w)"

text \<open>\<^verbatim>\<open>open(p, "rb")\<close>: the handle is modelled by the bytes it reads.\<close>

definition open_rb :: "string \<Rightarrow> bytes action" where
  "open_rb p w =
     (let w1 = log_event (FsAccess (OpenRead p)) w in
      case io_fault w (OpenRead p) of
        Some e \<Rightarrow> (Inl e, w1)
      | None \<Rightarrow>
          (case fs w p of
             None \<Rightarrow> (Inl (OtherException (''[Errno 2] No such file or directory: '' @ py_repr p)), w1)
           | Some Directory \<Rightarrow> (Inl (OtherException (''[Errno 21] Is a directory: '' @ py_repr p)), w1)
           | Some (File data) \<Rightarrow> (Inr data, w1)))"

text \<open>
  \<^verbatim>\<open>open(p, "wb")\<close>: creates the file or truncates it to empty, unless the
  operating system refuses, the path is empty or the path is a directory.
\<close>

definition open_wb :: "string \<Rightarrow> unit action" where
  "open_wb p w =
     (let w1 = log_event (FsAccess (OpenWrite p)) w in
      case io_fault w (OpenWrite p) of
        Some e \<Rightarrow> (Inl e, w1)
      | None \<Rightarrow>
          (if p = [] then (Inl (OtherException (''[Errno 2] No such file or directory: '' @ py_repr p)), w1)
           else if fs w p = Some Directory
           then (Inl (OtherException (''[Errno 21] Is a directory: '' @ py_repr p)), w1)
           else (Inr (), w1\<lparr>fs := (fs w)(p \<mapsto> File [])\<rparr>)))"

text \<open>\<^verbatim>\<open>file.write(data)\<close> on the file opened for writing at \<open>p\<close>.\<close>

definition file_write :: "string \<Rightarrow> bytes \<Rightarrow> unit action" where
  "file_write p data w =
     (let w1 = log_event (FsAccess (WriteFile p data)) w in
      case io_fault w (WriteFile p data) of
        Some e \<Rightarrow> (Inl e, w1)
      | None \<Rightarrow> (Inr (), w1\<lparr>fs := (fs w)(p \<mapsto> File data)\<rparr>))"

subsection \<open>json.dumps(info, indent=2)\<close>

text \<open>
  The values server.py puts into \<^verbatim>\<open>info\<close>: strings, an integer, None, and the
  metadata dictionary of strings.
\<close>

datatype jval = JStr string | JInt nat | JNull | JDict "(string \<times> string) list"

text \<open>
  The string encoder with \<^verbatim>\<open>ensure_ascii\<close>: the quote, the backslash and every
  code point outside U+0020..U+007E are escaped, by the short escape where JSON has
  one and as \<^verbatim>\<open>\u00xx\<close> otherwise.
\<close>

definition json_escape_char :: "char \<Rightarrow> string" where
  "json_escape_char c =
     (let n = (of_char c :: nat) in
      if c = CHR 0x22 then [CHR 0x5C, CHR 0x22]
      else if c = CHR 0x5C then [CHR 0x5C, CHR 0x5C]
      else if c = CHR 0x0A then [CHR 0x5C, CHR ''n'']
      else if c = CHR 0x0D then [CHR 0x5C, CHR ''r'']
      else if c = CHR 0x09 then [CHR 0x5C, CHR ''t'']
      else if c = CHR 0x08 then [CHR 0x5C, CHR ''b'']
      else if c = CHR 0x0C then [CHR 0x5C, CHR ''f'']
      else if 32 \<le> n \<and> n \<le> 126 then [c]
      else [CHR 0x5C, CHR ''u'', CHR ''0'', CHR ''0'', hex_digit (n div 16), hex_digit n])"

definition json_str :: "string \<Rightarrow> string" where
  "json_str s = [CHR 0x22] @ concat (map json_escape_char s) @ [CHR 0x22]"

text \<open>A non-empty dictionary at nesting depth \<open>lvl\<close>: one item per line, two spaces per level.\<close>

definition newline_indent :: "nat \<Rightarrow> string" where
  "newline_indent lvl = CHR 0x0A # replicate (2 * lvl) CHR '' ''"

definition json_dict :: "nat \<Rightarrow> (string \<times> string) list \<Rightarrow> string" where
  "json_dict lvl items =
     (if items = [] then ''{}''
      else ''{'' @ newline_indent (Suc lvl)
           @ join ('','' @ newline_indent (Suc lvl)) (map (\<lambda>(k, v). json_str k @ '': '' @ v) items)
           @ newline_indent lvl @ ''}'')"

fun json_val :: "jval \<Rightarrow> string" where
  "json_val (JStr s) = json_str s"
| "json_val (JInt n) = str_nat n"
| "json_val JNull = ''null''"
| "json_val (JDict kvs) = json_dict 1 (map (\<lambda>(k, v). (k, json_str v)) kvs)"

definition json_dumps :: "(string \<times> jval) list \<Rightarrow> string" where
  "json_dumps info = json_dict 0 (map (\<lambda>(k, v). (k, json_val v)) info)"

text \<open>\<^verbatim>\<open>str(x)\<close> of a timestamp that may be None.\<close>

definition py_str_opt :: "string option \<Rightarrow> string" where
  "py_str_opt x = (case x of None \<Rightarrow> ''None'' | Some s \<Rightarrow> s)"

definition json_opt :: "string option \<Rightarrow> jval" where
  "json_opt x = (case x of None \<Rightarrow> JNull | Some s \<Rightarrow> JStr s)"


subsection \<open>The library calls that read no state\<close>

definition mimetypes_guess_type :: "string \<Rightarrow> string option action" where
  "mimetypes_guess_type p w = (Inr (guess_type w p), w)"

definition py_re_search :: "string \<Rightarrow> string \<Rightarrow> bool action" where
  "py_re_search pattern s w = (re_search w pattern s, w)"

text \<open>
  The comprehension \<^verbatim>\<open>[blob for blob in all_blobs if re.search(pattern, blob)]\<close>:
  one \<^verbatim>\<open>re.search\<close> per name, in order, stopping at the first that raises.
\<close>

fun matching :: "string \<Rightarrow> string list \<Rightarrow> string list action" where
  "matching pattern [] = py_return []"
| "matching pattern (blob # rest) =
     py_bind (py_re_search pattern blob) (\<lambda>m.
     py_bind (matching pattern rest) (\<lambda>ms.
     py_return (if m then blob # ms else ms)))"

text \<open>
  The same comprehension as a function of the answers of \<^verbatim>\<open>re.search\<close> alone:
  the names that match, or the first exception.
\<close>

fun comprehension :: "(string \<Rightarrow> exn + bool) \<Rightarrow> string list \<Rightarrow> exn + string list" where
  "comprehension test [] = Inr []"
| "comprehension test (x # xs) =
     (case test x of
        Inl e \<Rightarrow> Inl e
      | Inr m \<Rightarrow>
          (case comprehension test xs of
             Inl e \<Rightarrow> Inl e
           | Inr ms \<Rightarrow> Inr (if m then x # ms else ms)))"

text \<open>An optional string parameter with a default value in the signature.\<close>

definition default_arg :: "string option \<Rightarrow> string \<Rightarrow> string" where
  "default_arg x d = (case x of None \<Rightarrow> d | Some s \<Rightarrow> s)"

text \<open>\<^verbatim>\<open>if not x: x = d\<close> for a parameter whose default is None.\<close>

definition if_not :: "string option \<Rightarrow> string \<Rightarrow> string" where
  "if_not x d = (case x of None \<Rightarrow> d | Some s \<Rightarrow> if s = [] then d else s)"

subsection \<open>The tools\<close>

definition not_initialized :: string where
  "not_initialized =
     ''Azure Blob Storage client is not initialized. Check your connection string.''"

definition list_containers :: "string action" where
  "list_containers w =
     (if blob_service_client w = None then py_return not_initialized w
      else py_try
        (py_bind sdk_list_containers (\<lambda>names.
           if names \<noteq> []
           then py_return (''Found '' @ str_nat (length names) @ '' containers: ''
                           @ join '', '' names)
           else py_return ''No containers found in this storage account.''))
        (\<lambda>e. py_return (''Error listing containers: '' @ str_exn e)) w)"

definition list_blobs :: "string \<Rightarrow> string option \<Rightarrow> string action" where
  "list_blobs container prefix_arg w =
     (let prefix = default_arg prefix_arg [] in
      if blob_service_client w = None then py_return not_initialized w
      else py_try
        (py_bind (sdk_get_container_client container) (\<lambda>container_client.
         py_bind (sdk_list_blobs container_client (Some prefix)) (\<lambda>blobs.
           if blobs \<noteq> []
           then py_return (''Found '' @ str_nat (length blobs) @ '' blobs in '' @ container
                           @ '': '' @ join '', '' blobs)
           else py_return (''No blobs found in '' @ container
                           @ (if prefix \<noteq> [] then '' with prefix '' @ quoted prefix else ''.'')))))
        (\<lambda>e. py_return (''Error listing blobs in '' @ container @ '': '' @ str_exn e)) w)"

definition blob_info :: "string \<Rightarrow> blob_properties \<Rightarrow> (string \<times> jval) list" where
  "blob_info blob_name properties =
     [(''name'', JStr blob_name),
      (''size_bytes'', JInt (size_prop properties)),
      (''content_type'', json_opt (content_type properties)),
      (''last_modified'', JStr (py_str_opt (last_modified properties))),
      (''creation_time'', JStr (py_str_opt (creation_time properties))),
      (''lease_status'', json_opt (lease_status properties)),
      (''metadata'', JDict (case metadata properties of None \<Rightarrow> [] | Some kvs \<Rightarrow> kvs))]"

definition get_blob_info :: "string \<Rightarrow> string \<Rightarrow> string action" where
  "get_blob_info container blob_name w =
     (if blob_service_client w = None then py_return not_initialized w
      else py_try
        (py_bind (sdk_get_blob_client container blob_name) (\<lambda>blob_client.
         py_bind (sdk_get_blob_properties blob_client) (\<lambda>properties.
         py_return (json_dumps (blob_info blob_name properties)))))
        (\<lambda>e. case e of
               ResourceNotFoundError m \<Rightarrow>
                 py_return (''Blob '' @ quoted blob_name @ '' not found in container ''
                            @ quoted container @ ''.'')
             | ResourceExistsError m \<Rightarrow> py_return (''Error getting blob info: '' @ str_exn e)
             | OtherException m \<Rightarrow> py_return (''Error getting blob info: '' @ str_exn e)) w)"

definition create_container :: "string \<Rightarrow> string action" where
  "create_container container w =
     (if blob_service_client w = None then py_return not_initialized w
      else py_try
        (py_bind (sdk_create_container container) (\<lambda>u.
         py_return (''Container '' @ quoted container @ '' created successfully.'')))
        (\<lambda>e. case e of
               ResourceExistsError m \<Rightarrow>
                 py_return (''Container '' @ quoted container @ '' already exists.'')
             | ResourceNotFoundError m \<Rightarrow> py_return (''Error creating container: '' @ str_exn e)
             | OtherException m \<Rightarrow> py_return (''Error creating container: '' @ str_exn e)) w)"

definition delete_container :: "string \<Rightarrow> string option \<Rightarrow> string action" where
  "delete_container container confirm_arg w =
     (let confirm = default_arg confirm_arg ''no'' in
      if blob_service_client w = None then py_return not_initialized w
      else if py_lower confirm \<noteq> ''yes''
      then py_return (''To delete container '' @ quoted container
                      @ '', set confirm parameter to 'yes'.'') w
      else py_try
        (py_bind (sdk_delete_container container) (\<lambda>u.
         py_return (''Container '' @ quoted container @ '' deleted successfully.'')))
        (\<lambda>e. case e of
               ResourceNotFoundError m \<Rightarrow>
                 py_return (''Container '' @ quoted container @ '' not found.'')
             | ResourceExistsError m \<Rightarrow> py_return (''Error deleting container: '' @ str_exn e)
             | OtherException m \<Rightarrow> py_return (''Error deleting container: '' @ str_exn e)) w)"

definition upload_blob :: "string \<Rightarrow> string \<Rightarrow> string option \<Rightarrow> string action" where
  "upload_blob container local_file_path blob_name_arg w =
     (if blob_service_client w = None then py_return not_initialized w
      else py_bind (os_path_exists local_file_path) (\<lambda>found.
        if \<not> found then py_return (''Local file '' @ quoted local_file_path @ '' not found.'')
        else
          (let blob_name = if_not blob_name_arg (basename local_file_path) in
           py_try
             (py_bind (mimetypes_guess_type local_file_path) (\<lambda>guessed.
              py_bind (sdk_get_container_client container) (\<lambda>container_client.
              py_bind (open_rb local_file_path) (\<lambda>data.
              py_bind (sdk_upload_blob container_client blob_name data True guessed) (\<lambda>blob_client.
              py_return (''File uploaded successfully to '' @ quoted (container @ ''/'' @ blob_name)))))))
             (\<lambda>e. case e of
                    ResourceNotFoundError m \<Rightarrow>
                      py_return (''Container '' @ quoted container @ '' not found.'')
                  | ResourceExistsError m \<Rightarrow> py_return (''Error uploading file: '' @ str_exn e)
                  | OtherException m \<Rightarrow> py_return (''Error uploading file: '' @ str_exn e)))) w)"

definition download_blob :: "string \<Rightarrow> string \<Rightarrow> string option \<Rightarrow> string action" where
  "download_blob container blob_name local_file_path_arg w =
     (if blob_service_client w = None then py_return not_initialized w
      else
        (let local_file_path = if_not local_file_path_arg (basename blob_name) in
         py_try
           (py_bind (sdk_get_blob_client container blob_name) (\<lambda>blob_client.
            py_bind (open_wb local_file_path) (\<lambda>u.
            py_bind (sdk_download_blob blob_client) (\<lambda>data.
            py_bind (sdk_readall data) (\<lambda>body.
            py_bind (file_write local_file_path body) (\<lambda>u.
            py_return (''Blob '' @ quoted blob_name @ '' downloaded successfully to ''
                       @ quoted local_file_path)))))))
           (\<lambda>e. case e of
                  ResourceNotFoundError m \<Rightarrow>
                    py_return (''Blob '' @ quoted blob_name @ '' not found in container ''
                               @ quoted container @ ''.'')
                | ResourceExistsError m \<Rightarrow> py_return (''Error downloading blob: '' @ str_exn e)
                | OtherException m \<Rightarrow> py_return (''Error downloading blob: '' @ str_exn e)) w))"

definition delete_blob :: "string \<Rightarrow> string \<Rightarrow> string option \<Rightarrow> string action" where
  "delete_blob container blob_name confirm_arg w =
     (let confirm = default_arg confirm_arg ''no'' in
      if blob_service_client w = None then py_return not_initialized w
      else if py_lower confirm \<noteq> ''yes''
      then py_return (''To delete blob '' @ quoted blob_name
                      @ '', set confirm parameter to 'yes'.'') w
      else py_try
        (py_bind (sdk_get_blob_client container blob_name) (\<lambda>blob_client.
         py_bind (sdk_delete_blob blob_client) (\<lambda>u.
         py_return (''Blob '' @ quoted blob_name @ '' deleted successfully from container ''
                    @ quoted container @ ''.''))))
        (\<lambda>e. case e of
               ResourceNotFoundError m \<Rightarrow>
                 py_return (''Blob '' @ quoted blob_name @ '' not found in container ''
                            @ quoted container @ ''.'')
             | ResourceExistsError m \<Rightarrow> py_return (''Error deleting blob: '' @ str_exn e)
             | OtherException m \<Rightarrow> py_return (''Error deleting blob: '' @ str_exn e)) w)"

definition search_blobs :: "string \<Rightarrow> string \<Rightarrow> string action" where
  "search_blobs container pattern w =
     (if blob_service_client w = None then py_return not_initialized w
      else py_try
        (py_bind (sdk_get_container_client container) (\<lambda>container_client.
         py_bind (sdk_list_blobs container_client None) (\<lambda>all_blobs.
         py_bind (matching pattern all_blobs) (\<lambda>matching_blobs.
           if matching_blobs \<noteq> []
           then py_return (''Found '' @ str_nat (length matching_blobs) @ '' matching blobs in ''
                           @ container @ '': '' @ join '', '' matching_blobs)
           else py_return (''No blobs matching pattern '' @ quoted pattern @ '' found in ''
                           @ container @ ''.'')))))
        (\<lambda>e. py_return (''Error searching blobs: '' @ str_exn e)) w)"

subsection \<open>The tool surface\<close>

text \<open>
  One constructor per function registered with \<^verbatim>\<open>@mcp.tool\<close>, carrying the
  arguments of a call; an optional parameter left out is \<open>None\<close>.
\<close>

datatype request =
    CallListContainers
  | CallListBlobs string "string option"
  | CallGetBlobInfo string string
  | CallCreateContainer string
  | CallDeleteContainer string "string option"
  | CallUploadBlob string string "string option"
  | CallDownloadBlob string string "string option"
  | CallDeleteBlob string string "string option"
  | CallSearchBlobs string string

fun invoke :: "request \<Rightarrow> string action" where
  "invoke CallListContainers = list_containers"
| "invoke (CallListBlobs c p) = list_blobs c p"
| "invoke (CallGetBlobInfo c b) = get_blob_info c b"
| "invoke (CallCreateContainer c) = create_container c"
| "invoke (CallDeleteContainer c k) = delete_container c k"
| "invoke (CallUploadBlob c p b) = upload_blob c p b"
| "invoke (CallDownloadBlob c b p) = download_blob c b p"
| "invoke (CallDeleteBlob c b k) = delete_blob c b k"
| "invoke (CallSearchBlobs c p) = search_blobs c p"

subsection \<open>A concrete world for the examples\<close>

text \<open>
  The regular-expression engine of the examples covers the patterns made of literal
  characters with an optional leading \<^verbatim>\<open>^\<close>: the literal text is searched
  anywhere in the string, or at its start after \<^verbatim>\<open>^\<close>. On this fragment it
  agrees with Python's \<^verbatim>\<open>re.search\<close>. Every other pattern is answered with an
  error; for the pattern \<^verbatim>\<open>(\<close> that is what \<^verbatim>\<open>re\<close> does too, with
  the message given here.
\<close>

definition is_literal :: "char \<Rightarrow> bool" where
  "is_literal c = (c \<notin> set (''.^$*+?{}[]|()'' @ [CHR 0x5C]))"

fun occurs_in :: "string \<Rightarrow> string \<Rightarrow> bool" where
  "occurs_in lit [] = (lit = [])"
| "occurs_in lit (c # cs) = (startswith (c # cs) lit \<or> occurs_in lit cs)"

definition re_search_literal :: "string \<Rightarrow> string \<Rightarrow> exn + bool" where
  "re_search_literal pattern s =
     (if list_all is_literal pattern then Inr (occurs_in pattern s)
      else if take 1 pattern = ''^'' \<and> list_all is_literal (drop 1 pattern)
      then Inr (startswith s (drop 1 pattern))
      else if pattern = ''(''
      then Inl (OtherException ''missing ), unterminated subpattern at position 0'')
      else Inl (OtherException ''pattern outside the fragment''))"

definition guess_type_example :: "string \<Rightarrow> string option" where
  "guess_type_example p =
     (if startswith (rev p) (rev ''.txt'') then Some ''text/plain''
      else if startswith (rev p) (rev ''.json'') then Some ''application/json''
      else None)"

definition stored :: "bytes \<Rightarrow> (string \<times> string) list option \<Rightarrow> blob" where
  "stored data md =
     \<lparr> blob_content = data,
       blob_content_type = Some ''text/plain'',
       blob_last_modified = Some ''2024-05-01 10:00:00+00:00'',
       blob_creation_time = Some ''2024-04-30 09:30:00+00:00'',
       blob_lease_status = Some ''unlocked'',
       blob_metadata = md \<rparr>"

definition account :: "(string \<times> (string \<times> blob) list) list \<Rightarrow> storage" where
  "account cs =
     \<lparr> containers = cs, sdk_fault = (\<lambda>c. None),
       service_clock = Some ''2024-06-01 12:00:00+00:00'' \<rparr>"

definition docs :: "(string \<times> blob) list" where
  "docs = [(''abc'', stored ''hello'' (Some [(''owner'', ''ann'')])),
           (''bcd'', stored [] None),
           (''axy'', stored ''xyz'' (Some []))]"

definition machine :: "storage option \<Rightarrow> world" where
  "machine client =
     \<lparr> blob_service_client = client,
       fs = [''report.txt'' \<mapsto> File ''quarterly'', ''out'' \<mapsto> Directory,
             ''old.bin'' \<mapsto> File ''stale'', ''data/abc'' \<mapsto> File ''fresh''],
       io_fault = (\<lambda>a. None),
       guess_type = guess_type_example,
       re_search = re_search_literal,
       trace = [] \<rparr>"

definition example_account :: storage where
  "example_account = account [(''docs'', docs), (''empty'', [])]"

definition example_world :: world where
  "example_world = machine (Some example_account)"

definition two_containers_world :: world where
  "two_containers_world = machine (Some (account [(''a'', []), (''b'', [])]))"

definition no_containers_world :: world where
  "no_containers_world = machine (Some (account []))"

definition offline_world :: world where
  "offline_world = machine None"

text \<open>The same machine with a destination the operating system refuses to open.\<close>

definition locked_world :: world where
  "locked_world =
     example_world\<lparr>io_fault :=
       (\<lambda>a. if a = OpenWrite ''locked.bin''
            then Some (OtherException ''[Errno 13] Permission denied: 'locked.bin' '')
            else None)\<rparr>"

section \<open>Properties\<close>

subsection \<open>Every tool ends in a returned string\<close>

text \<open>
  A \<^verbatim>\<open>try\<close> whose handlers all return cannot let an exception through,
  whatever its body does.
\<close>

lemma py_try_returns:
  assumes "\<And>e w'. \<exists>s w''. handler e w' = (Inr s, w'')"
  shows "\<exists>s w'. py_try body handler w = (Inr s, w')"
proof (cases "body w")
  case (Pair r w1)
  show ?thesis
  proof (cases r)
    case (Inl e)
    with Pair assms [of e w1] show ?thesis by (simp add: py_try_def)
  next
    case (Inr x)
    with Pair show ?thesis by (simp add: py_try_def)
  qed
qed

lemma handler_returns:
  "\<exists>s w''. (case e of
               ResourceNotFoundError m \<Rightarrow> py_return (f m)
             | ResourceExistsError m \<Rightarrow> py_return (g m)
             | OtherException m \<Rightarrow> py_return (h m)) w' = (Inr s, w'')"
  by (cases e) (simp_all add: py_return_def)

lemma list_containers_returns: "\<exists>s w'. list_containers w = (Inr s, w')"
  unfolding list_containers_def
  by (cases "blob_service_client w = None") (simp_all add: py_return_def py_try_returns)

lemma list_blobs_returns: "\<exists>s w'. list_blobs c p w = (Inr s, w')"
  unfolding list_blobs_def Let_def
  by (cases "blob_service_client w = None") (simp_all add: py_return_def py_try_returns)

lemma get_blob_info_returns: "\<exists>s w'. get_blob_info c b w = (Inr s, w')"
  unfolding get_blob_info_def
  by (cases "blob_service_client w = None")
     (simp_all add: py_return_def py_try_returns handler_returns)

lemma create_container_returns: "\<exists>s w'. create_container c w = (Inr s, w')"
  unfolding create_container_def
  by (cases "blob_service_client w = None")
     (simp_all add: py_return_def py_try_returns handler_returns)

lemma delete_container_returns: "\<exists>s w'. delete_container c k w = (Inr s, w')"
  unfolding delete_container_def Let_def
  by (cases "blob_service_client w = None"; cases "py_lower (default_arg k ''no'') = ''yes''")
     (simp_all add: py_return_def py_try_returns handler_returns)

lemma delete_blob_returns: "\<exists>s w'. delete_blob c b k w = (Inr s, w')"
  unfolding delete_blob_def Let_def
  by (cases "blob_service_client w = None"; cases "py_lower (default_arg k ''no'') = ''yes''")
     (simp_all add: py_return_def py_try_returns handler_returns)

lemma search_blobs_returns: "\<exists>s w'. search_blobs c p w = (Inr s, w')"
  unfolding search_blobs_def
  by (cases "blob_service_client w = None") (simp_all add: py_return_def py_try_returns)

lemma download_blob_returns: "\<exists>s w'. download_blob c b p w = (Inr s, w')"
  unfolding download_blob_def Let_def
  by (cases "blob_service_client w = None")
     (simp_all add: py_return_def py_try_returns handler_returns)

lemma upload_blob_returns: "\<exists>s w'. upload_blob c p b w = (Inr s, w')"
proof (cases "blob_service_client w = None")
  case True
  then show ?thesis by (simp add: upload_blob_def py_return_def)
next
  case False
  show ?thesis
  proof (cases "fs w p \<noteq> None \<and> io_fault w (Exists p) = None")
    case True
    with False show ?thesis
      unfolding upload_blob_def Let_def
      by (auto simp add: py_bind_def os_path_exists_def py_try_returns handler_returns)
  next
    case False
    with \<open>blob_service_client w \<noteq> None\<close> show ?thesis
      unfolding upload_blob_def Let_def
      by (auto simp add: py_bind_def os_path_exists_def py_return_def)
  qed
qed

text \<open>
  Claim C4. For every tool, every argument and every world (so whatever the storage
  client and the local filesystem raise), the call ends in a returned string: no
  exception reaches the dispatcher.
\<close>

theorem every_tool_returns_text: "\<exists>s w'. invoke req w = (Inr s, w')"
  by (cases req)
     (simp_all add: list_containers_returns list_blobs_returns get_blob_info_returns
        create_container_returns delete_container_returns upload_blob_returns
        download_blob_returns delete_blob_returns search_blobs_returns)

theorem every_tool_returns_text_witness:
  "\<exists>s w'. invoke (CallDownloadBlob ''docs'' ''missing'' (Some ''out'')) example_world = (Inr s, w')"
  using every_tool_returns_text [of "CallDownloadBlob ''docs'' ''missing'' (Some ''out'')" example_world]
  by simp

subsection \<open>The client check\<close>

text \<open>
  Claim C1. When the storage client is absent, every tool, on every argument, returns
  the fixed message and leaves the world as it was: the trace gains no SDK call and no
  filesystem access, and the filesystem is unchanged.
\<close>

theorem uninitialized_client_short_circuits:
  "blob_service_client w = None \<Longrightarrow> invoke req w = (Inr not_initialized, w)"
  by (cases req)
     (simp_all add: list_containers_def list_blobs_def get_blob_info_def create_container_def
        delete_container_def upload_blob_def download_blob_def delete_blob_def search_blobs_def
        py_return_def Let_def)

theorem uninitialized_client_short_circuits_witness:
  "blob_service_client offline_world = None
   \<and> invoke (CallUploadBlob ''docs'' ''report.txt'' None) offline_world
       = (Inr ''Azure Blob Storage client is not initialized. Check your connection string.'',
          offline_world)
   \<and> trace offline_world = []"
proof -
  have absent: "blob_service_client offline_world = None"
    by (simp add: offline_world_def machine_def)
  have "trace offline_world = []"
    by (simp add: offline_world_def machine_def)
  with absent uninitialized_client_short_circuits [OF absent, of "CallUploadBlob ''docs'' ''report.txt'' None"]
  show ?thesis by (simp add: not_initialized_def)
qed

lemmas example_defs =
  example_world_def example_account_def two_containers_world_def no_containers_world_def
  machine_def account_def docs_def stored_def

subsection \<open>Confirmation of destructive tools\<close>

lemma py_lower_YES: "py_lower ''YES'' = ''yes''"
  by (simp add: py_lower_def py_lower_char_def)

lemma py_lower_no: "py_lower ''no'' \<noteq> ''yes''"
  by (simp add: py_lower_def py_lower_char_def)

text \<open>
  Claim C2. \<^verbatim>\<open>delete_container\<close> and \<^verbatim>\<open>delete_blob\<close> called
  with a confirmation whose lower-cased value is not \<^verbatim>\<open>yes\<close> (the default
  \<^verbatim>\<open>no\<close> of an omitted argument included) leave the world untouched, so no
  SDK call is made, and with a client present they return the prompt naming the target.
  When the lower-cased value is \<^verbatim>\<open>yes\<close> (as for \<^verbatim>\<open>YES\<close>) and a
  client is present, \<^verbatim>\<open>delete_container\<close> calls the client's delete, and
  \<^verbatim>\<open>delete_blob\<close> obtains the blob client and calls its delete.
\<close>

theorem destructive_tools_need_confirmation:
  "(py_lower (default_arg confirm ''no'') \<noteq> ''yes'' \<longrightarrow>
      snd (delete_container c confirm w) = w
      \<and> snd (delete_blob c b confirm w) = w
      \<and> (blob_service_client w \<noteq> None \<longrightarrow>
            fst (delete_container c confirm w)
              = Inr (''To delete container '' @ quoted c @ '', set confirm parameter to 'yes'.'')
            \<and> fst (delete_blob c b confirm w)
              = Inr (''To delete blob '' @ quoted b @ '', set confirm parameter to 'yes'.'')))
   \<and> (py_lower (default_arg confirm ''no'') = ''yes'' \<and> blob_service_client w = Some st \<longrightarrow>
        trace (snd (delete_container c confirm w)) = trace w @ [SdkCall (DeleteContainer c)]
        \<and> trace (snd (delete_blob c b confirm w))
          = trace w @ SdkCall (GetBlobClient c b)
              # (if sdk_fault st (GetBlobClient c b) = None then [SdkCall (DeleteBlob c b)]
                 else []))
   \<and> py_lower (default_arg None ''no'') \<noteq> ''yes''
   \<and> py_lower (default_arg (Some ''YES'') ''no'') = ''yes''"
proof -
  have untouched: "py_lower (default_arg confirm ''no'') \<noteq> ''yes'' \<Longrightarrow>
      snd (delete_container c confirm w) = w \<and> snd (delete_blob c b confirm w) = w"
    by (simp add: delete_container_def delete_blob_def Let_def py_return_def)
  have prompt: "py_lower (default_arg confirm ''no'') \<noteq> ''yes'' \<Longrightarrow>
      blob_service_client w \<noteq> None \<Longrightarrow>
      fst (delete_container c confirm w)
        = Inr (''To delete container '' @ quoted c @ '', set confirm parameter to 'yes'.'')
      \<and> fst (delete_blob c b confirm w)
        = Inr (''To delete blob '' @ quoted b @ '', set confirm parameter to 'yes'.'')"
    by (auto simp add: delete_container_def delete_blob_def Let_def py_return_def)
  have dc: "py_lower (default_arg confirm ''no'') = ''yes'' \<Longrightarrow>
      blob_service_client w = Some st \<Longrightarrow>
      trace (snd (delete_container c confirm w)) = trace w @ [SdkCall (DeleteContainer c)]"
    by (auto simp add: delete_container_def Let_def py_try_def py_bind_def py_return_def
        sdk_delete_container_def sdk_invoke_def log_event_def
        split: option.splits sum.splits prod.splits exn.splits)
  have db: "py_lower (default_arg confirm ''no'') = ''yes'' \<Longrightarrow>
      blob_service_client w = Some st \<Longrightarrow>
      trace (snd (delete_blob c b confirm w))
        = trace w @ SdkCall (GetBlobClient c b)
            # (if sdk_fault st (GetBlobClient c b) = None then [SdkCall (DeleteBlob c b)] else [])"
    by (auto simp add: delete_blob_def Let_def py_try_def py_bind_def py_return_def
        sdk_get_blob_client_def sdk_invoke_def log_event_def
        split: option.splits sum.splits prod.splits exn.splits)
  have "py_lower (default_arg None ''no'') \<noteq> ''yes''"
    by (simp add: default_arg_def py_lower_no)
  moreover have "py_lower (default_arg (Some ''YES'') ''no'') = ''yes''"
    by (simp add: default_arg_def py_lower_YES)
  ultimately show ?thesis using untouched prompt dc db by blast
qed

theorem destructive_tools_need_confirmation_witness:
  "blob_service_client example_world = Some example_account
   \<and> py_lower (default_arg None ''no'') \<noteq> ''yes''
   \<and> delete_container ''docs'' None example_world
       = (Inr ''To delete container 'docs', set confirm parameter to 'yes'.'', example_world)
   \<and> py_lower (default_arg (Some ''nope'') ''no'') \<noteq> ''yes''
   \<and> delete_blob ''docs'' ''abc'' (Some ''nope'') example_world
       = (Inr ''To delete blob 'abc', set confirm parameter to 'yes'.'', example_world)
   \<and> py_lower (default_arg (Some ''YES'') ''no'') = ''yes''
   \<and> trace (snd (delete_container ''docs'' (Some ''YES'') example_world))
       = [SdkCall (DeleteContainer ''docs'')]
   \<and> py_lower (default_arg (Some ''Yes'') ''no'') = ''yes''
   \<and> trace (snd (delete_blob ''docs'' ''abc'' (Some ''Yes'') example_world))
       = [SdkCall (GetBlobClient ''docs'' ''abc''), SdkCall (DeleteBlob ''docs'' ''abc'')]"
proof -
  have client: "blob_service_client example_world = Some example_account"
    by (simp add: example_defs)
  have quiet: "sdk_fault example_account (GetBlobClient ''docs'' ''abc'') = None"
    and fresh: "trace example_world = []"
    by (simp_all add: example_defs)
  have lowered:
    "py_lower (default_arg None ''no'') \<noteq> ''yes''"
    "py_lower (default_arg (Some ''nope'') ''no'') \<noteq> ''yes''"
    "py_lower (default_arg (Some ''YES'') ''no'') = ''yes''"
    "py_lower (default_arg (Some ''Yes'') ''no'') = ''yes''"
    by (simp_all add: default_arg_def py_lower_def py_lower_char_def)
  have "delete_container ''docs'' None example_world
       = (Inr ''To delete container 'docs', set confirm parameter to 'yes'.'', example_world)"
    using destructive_tools_need_confirmation [of None "''docs''" example_world "''abc''"]
      client lowered(1)
    by (simp add: quoted_def prod_eq_iff)
  moreover have "delete_blob ''docs'' ''abc'' (Some ''nope'') example_world
       = (Inr ''To delete blob 'abc', set confirm parameter to 'yes'.'', example_world)"
    using destructive_tools_need_confirmation [of "Some ''nope''" "''docs''" example_world "''abc''"]
      client lowered(2)
    by (simp add: quoted_def prod_eq_iff)
  moreover have "trace (snd (delete_container ''docs'' (Some ''YES'') example_world))
       = [SdkCall (DeleteContainer ''docs'')]"
    using destructive_tools_need_confirmation
            [of "Some ''YES''" "''docs''" example_world "''abc''" example_account]
      client lowered(3) fresh
    by simp
  moreover have "trace (snd (delete_blob ''docs'' ''abc'' (Some ''Yes'') example_world))
       = [SdkCall (GetBlobClient ''docs'' ''abc''), SdkCall (DeleteBlob ''docs'' ''abc'')]"
    using destructive_tools_need_confirmation
            [of "Some ''Yes''" "''docs''" example_world "''abc''" example_account]
      client lowered(4) fresh quiet
    by simp
  ultimately show ?thesis using client lowered by simp
qed

subsection \<open>Upload: the local file is checked first\<close>

text \<open>
  Claim C5. With a client present, \<^verbatim>\<open>upload_blob\<close> on a local path that is
  absent from the filesystem returns the missing-file message naming the path; the only
  effect is the existence check itself, so the trace gains no SDK call and the account
  behind the client is unchanged.
\<close>

theorem upload_checks_local_file_first:
  assumes "blob_service_client w = Some st" and "fs w p = None"
  shows "upload_blob c p b w
           = (Inr (''Local file '' @ quoted p @ '' not found.''), log_event (FsAccess (Exists p)) w)
       \<and> trace (snd (upload_blob c p b w)) = trace w @ [FsAccess (Exists p)]
       \<and> blob_service_client (snd (upload_blob c p b w)) = Some st"
  using assms
  by (simp add: upload_blob_def py_bind_def os_path_exists_def py_return_def log_event_def)

theorem upload_checks_local_file_first_witness:
  "blob_service_client example_world = Some example_account
   \<and> fs example_world ''nothing.txt'' = None
   \<and> fst (upload_blob ''docs'' ''nothing.txt'' (Some ''target'') example_world)
       = Inr ''Local file 'nothing.txt' not found.''
   \<and> trace (snd (upload_blob ''docs'' ''nothing.txt'' (Some ''target'') example_world))
       = [FsAccess (Exists ''nothing.txt'')]"
proof -
  have client: "blob_service_client example_world = Some example_account"
    and absent: "fs example_world ''nothing.txt'' = None"
    and fresh: "trace example_world = []"
    by (simp_all add: example_defs)
  from upload_checks_local_file_first [OF client absent, of "''docs''" "Some ''target''"] fresh
  have "fst (upload_blob ''docs'' ''nothing.txt'' (Some ''target'') example_world)
          = Inr ''Local file 'nothing.txt' not found.''
        \<and> trace (snd (upload_blob ''docs'' ''nothing.txt'' (Some ''target'') example_world))
          = [FsAccess (Exists ''nothing.txt'')]"
    by (simp add: quoted_def log_event_def)
  with client absent show ?thesis by simp
qed

subsection \<open>Listing containers\<close>

lemma list_containers_on_account:
  assumes "blob_service_client w = Some st" and "sdk_fault st ListContainers = None"
  shows "fst (list_containers w)
           = Inr (if map fst (containers st) \<noteq> []
                  then ''Found '' @ str_nat (length (containers st)) @ '' containers: ''
                       @ join '', '' (map fst (containers st))
                  else ''No containers found in this storage account.'')"
  using assms
  by (simp add: list_containers_def py_try_def py_bind_def py_return_def
      sdk_list_containers_def sdk_invoke_def)

text \<open>
  Claim C9. When the client lists the account without a failure,
  \<^verbatim>\<open>list_containers\<close> returns the fixed "no containers" message for an account
  with zero containers, and otherwise the count followed by the names joined with a
  comma and a space; for the containers a and b that is "Found 2 containers: a, b".
\<close>

theorem list_containers_summary:
  assumes "blob_service_client w = Some st" and "sdk_fault st ListContainers = None"
  shows "(containers st = [] \<longrightarrow>
            fst (list_containers w) = Inr ''No containers found in this storage account.'')
       \<and> (map fst (containers st) = [''a'', ''b''] \<longrightarrow>
            fst (list_containers w) = Inr ''Found 2 containers: a, b'')
       \<and> (containers st \<noteq> [] \<longrightarrow>
            fst (list_containers w)
              = Inr (''Found '' @ str_nat (length (containers st)) @ '' containers: ''
                     @ join '', '' (map fst (containers st))))"
proof -
  have two: "map fst (containers st) = [''a'', ''b''] \<Longrightarrow> length (containers st) = 2"
    by (metis length_map length_Cons list.size(3) numeral_2_eq_2)
  have "str_nat 2 = ''2''" by (simp add: str_nat.simps)
  with two list_containers_on_account [OF assms] show ?thesis by auto
qed

theorem list_containers_summary_witness:
  "blob_service_client no_containers_world = Some (account [])
   \<and> sdk_fault (account []) ListContainers = None
   \<and> fst (list_containers no_containers_world)
       = Inr ''No containers found in this storage account.''
   \<and> blob_service_client two_containers_world = Some (account [(''a'', []), (''b'', [])])
   \<and> fst (list_containers two_containers_world) = Inr ''Found 2 containers: a, b''"
proof -
  have c0: "blob_service_client no_containers_world = Some (account [])"
    and q0: "sdk_fault (account []) ListContainers = None"
    and c2: "blob_service_client two_containers_world = Some (account [(''a'', []), (''b'', [])])"
    and q2: "sdk_fault (account [(''a'', []), (''b'', [])]) ListContainers = None"
    by (simp_all add: example_defs)
  have "fst (list_containers no_containers_world)
          = Inr ''No containers found in this storage account.''"
    using list_containers_summary [OF c0 q0] by (simp add: account_def)
  moreover have "fst (list_containers two_containers_world) = Inr ''Found 2 containers: a, b''"
    using list_containers_summary [OF c2 q2] by (simp add: account_def)
  ultimately show ?thesis using c0 q0 c2 by simp
qed

subsection \<open>The blob snapshot\<close>

text \<open>
  Claim C6. When the client answers \<^verbatim>\<open>get_blob_client\<close> and
  \<^verbatim>\<open>get_blob_properties\<close> without a failure of its own:
  for a blob stored in the container, \<^verbatim>\<open>get_blob_info\<close> returns the indented
  JSON text of the snapshot, whose \<^verbatim>\<open>size_bytes\<close> is the length of the stored
  content and whose \<^verbatim>\<open>metadata\<close> is the stored key/value pairs (the empty
  dictionary when none are set); when the container or the blob is missing it returns
  the not-found message naming the blob and the container.
\<close>

theorem get_blob_info_snapshot:
  assumes "blob_service_client w = Some st"
    and "sdk_fault st (GetBlobClient c b) = None"
    and "sdk_fault st (GetBlobProperties c b) = None"
  shows "(\<forall>bs bl. map_of (containers st) c = Some bs \<and> map_of bs b = Some bl \<longrightarrow>
            fst (get_blob_info c b w) = Inr (json_dumps (blob_info b (properties_of bl)))
            \<and> map fst (blob_info b (properties_of bl))
                = [''name'', ''size_bytes'', ''content_type'', ''last_modified'',
                   ''creation_time'', ''lease_status'', ''metadata'']
            \<and> map_of (blob_info b (properties_of bl)) ''size_bytes''
                = Some (JInt (length (blob_content bl)))
            \<and> map_of (blob_info b (properties_of bl)) ''metadata''
                = Some (JDict (case blob_metadata bl of None \<Rightarrow> [] | Some kvs \<Rightarrow> kvs)))
       \<and> ((map_of (containers st) c = None
            \<or> (\<exists>bs. map_of (containers st) c = Some bs \<and> map_of bs b = None)) \<longrightarrow>
            fst (get_blob_info c b w)
              = Inr (''Blob '' @ quoted b @ '' not found in container '' @ quoted c @ ''.''))"
  using assms
  by (auto simp add: get_blob_info_def py_try_def py_bind_def py_return_def
      sdk_get_blob_client_def sdk_invoke_def log_event_def find_blob_def
      blob_info_def properties_of_def no_container_def no_blob_def
      split: option.splits sum.splits prod.splits exn.splits)

lemma newline_indent_simps:
  "newline_indent 0 = [CHR 0x0A]"
  "newline_indent (Suc 0) = [CHR 0x0A, CHR '' '', CHR '' '']"
  "newline_indent (Suc (Suc 0)) = [CHR 0x0A, CHR '' '', CHR '' '', CHR '' '', CHR '' '']"
  by (simp_all add: newline_indent_def eval_nat_numeral)

lemma json_dumps_abc:
  \<open>json_dumps (blob_info ''abc'' (properties_of (stored ''hello'' (Some [(''owner'', ''ann'')]))))
     = join [CHR 0x0A]
        [''{'',
         ''  "name": "abc",'',
         ''  "size_bytes": 5,'',
         ''  "content_type": "text/plain",'',
         ''  "last_modified": "2024-05-01 10:00:00+00:00",'',
         ''  "creation_time": "2024-04-30 09:30:00+00:00",'',
         ''  "lease_status": "unlocked",'',
         ''  "metadata": {'',
         ''    "owner": "ann"'',
         ''  }'',
         ''}'']\<close>
  by (simp add: json_dumps_def json_dict_def json_str_def json_escape_char_def
      json_opt_def py_str_opt_def blob_info_def properties_of_def stored_def str_nat.simps
      newline_indent_simps)

lemma json_dumps_bcd:
  \<open>json_dumps (blob_info ''bcd'' (properties_of (stored [] None)))
     = join [CHR 0x0A]
        [''{'',
         ''  "name": "bcd",'',
         ''  "size_bytes": 0,'',
         ''  "content_type": "text/plain",'',
         ''  "last_modified": "2024-05-01 10:00:00+00:00",'',
         ''  "creation_time": "2024-04-30 09:30:00+00:00",'',
         ''  "lease_status": "unlocked",'',
         ''  "metadata": {}'',
         ''}'']\<close>
  by (simp add: json_dumps_def json_dict_def json_str_def json_escape_char_def
      json_opt_def py_str_opt_def blob_info_def properties_of_def stored_def str_nat.simps
      newline_indent_simps)

theorem get_blob_info_snapshot_witness:
  \<open>blob_service_client example_world = Some example_account
   \<and> sdk_fault example_account (GetBlobClient ''docs'' ''abc'') = None
   \<and> sdk_fault example_account (GetBlobProperties ''docs'' ''abc'') = None
   \<and> map_of (containers example_account) ''docs'' = Some docs
   \<and> map_of docs ''abc'' = Some (stored ''hello'' (Some [(''owner'', ''ann'')]))
   \<and> fst (get_blob_info ''docs'' ''abc'' example_world)
       = Inr (join [CHR 0x0A]
          [''{'',
           ''  "name": "abc",'',
           ''  "size_bytes": 5,'',
           ''  "content_type": "text/plain",'',
           ''  "last_modified": "2024-05-01 10:00:00+00:00",'',
           ''  "creation_time": "2024-04-30 09:30:00+00:00",'',
           ''  "lease_status": "unlocked",'',
           ''  "metadata": {'',
           ''    "owner": "ann"'',
           ''  }'',
           ''}''])
   \<and> map_of docs ''bcd'' = Some (stored [] None)
   \<and> fst (get_blob_info ''docs'' ''bcd'' example_world)
       = Inr (join [CHR 0x0A]
          [''{'',
           ''  "name": "bcd",'',
           ''  "size_bytes": 0,'',
           ''  "content_type": "text/plain",'',
           ''  "last_modified": "2024-05-01 10:00:00+00:00",'',
           ''  "creation_time": "2024-04-30 09:30:00+00:00",'',
           ''  "lease_status": "unlocked",'',
           ''  "metadata": {}'',
           ''}''])
   \<and> map_of docs ''zzz'' = None
   \<and> fst (get_blob_info ''docs'' ''zzz'' example_world)
       = Inr ''Blob 'zzz' not found in container 'docs'.''\<close>
proof -
  have client: "blob_service_client example_world = Some example_account"
    and quiet: "sdk_fault example_account call = None" for call
    by (simp_all add: example_defs)
  have container: "map_of (containers example_account) ''docs'' = Some docs"
    by (simp add: example_account_def account_def)
  have abc: "map_of docs ''abc'' = Some (stored ''hello'' (Some [(''owner'', ''ann'')]))"
    and bcd: "map_of docs ''bcd'' = Some (stored [] None)"
    and zzz: "map_of docs ''zzz'' = None"
    by (simp_all add: docs_def)
  have "fst (get_blob_info ''docs'' ''abc'' example_world)
          = Inr (json_dumps (blob_info ''abc'' (properties_of (stored ''hello'' (Some [(''owner'', ''ann'')])))))"
    using get_blob_info_snapshot [OF client quiet quiet, of "''docs''" "''abc''"] container abc
    by blast
  moreover have "fst (get_blob_info ''docs'' ''bcd'' example_world)
          = Inr (json_dumps (blob_info ''bcd'' (properties_of (stored [] None))))"
    using get_blob_info_snapshot [OF client quiet quiet, of "''docs''" "''bcd''"] container bcd
    by blast
  moreover have "fst (get_blob_info ''docs'' ''zzz'' example_world)
          = Inr ''Blob 'zzz' not found in container 'docs'.''"
    using get_blob_info_snapshot [OF client quiet quiet, of "''docs''" "''zzz''"] container zzz
    by (simp add: quoted_def)
  ultimately show ?thesis
    using client quiet container abc bcd zzz
    by (simp only: json_dumps_abc json_dumps_bcd simp_thms)
qed

subsection \<open>Upload: name, content type and overwrite\<close>



subsection \<open>Searching blobs\<close>

lemma matching_comprehension:
  "matching pat names w = (comprehension (re_search w pat) names, w)"
  by (induction names)
     (auto simp add: py_return_def py_bind_def py_re_search_def split: sum.splits)

lemma comprehension_compiled:
  assumes "\<forall>n \<in> set names. \<exists>m. test n = Inr m"
  shows "comprehension test names = Inr (filter (\<lambda>n. test n = Inr True) names)"
  using assms by (induction names) auto

lemma comprehension_raises:
  assumes "n \<in> set names" and "test n = Inl e"
  shows "\<exists>e'. comprehension test names = Inl e'"
  using assms by (induction names) (auto split: sum.splits)

lemma comprehension_malformed:
  assumes "names \<noteq> []" and "\<forall>s. test s = Inl e"
  shows "comprehension test names = Inl e"
  using assms by (cases names) simp_all

lemma startswith_empty: "startswith n []"
  by (simp add: startswith_def)

text \<open>What \<^verbatim>\<open>search_blobs\<close> returns once the container is listed.\<close>

lemma search_blobs_on_listing:
  assumes "blob_service_client w = Some st"
    and "sdk_fault st (GetContainerClient c) = None"
    and "sdk_fault st (ListBlobs c None) = None"
    and "map_of (containers st) c = Some bs"
  shows "fst (search_blobs c pat w)
           = (case comprehension (re_search w pat) (map fst bs) of
                Inl e \<Rightarrow> Inr (''Error searching blobs: '' @ str_exn e)
              | Inr ms \<Rightarrow>
                  Inr (if ms \<noteq> []
                       then ''Found '' @ str_nat (length ms) @ '' matching blobs in '' @ c @ '': ''
                            @ join '', '' ms
                       else ''No blobs matching pattern '' @ quoted pat @ '' found in '' @ c @ ''.''))"
  using assms
  by (simp add: search_blobs_def py_try_def py_bind_def py_return_def
      sdk_get_container_client_def sdk_invoke_def log_event_def
      matching_comprehension startswith_empty
      split: sum.splits)

lemma list_blobs_on_listing:
  assumes "blob_service_client w = Some st"
    and "sdk_fault st (GetContainerClient c) = None"
    and "sdk_fault st (ListBlobs c (Some [])) = None"
    and "map_of (containers st) c = Some bs"
    and "default_arg prefix_arg [] = []"
  shows "fst (list_blobs c prefix_arg w)
           = Inr (if map fst bs \<noteq> []
                  then ''Found '' @ str_nat (length (map fst bs)) @ '' blobs in '' @ c @ '': ''
                       @ join '', '' (map fst bs)
                  else ''No blobs found in '' @ c @ ''.'')"
  using assms
  by (simp add: list_blobs_def py_try_def py_bind_def py_return_def
      sdk_get_container_client_def sdk_invoke_def log_event_def startswith_empty)

text \<open>
  Claim C3. For a container of the account that the client lists without a failure, with
  blob names \<open>map fst bs\<close>: \<^verbatim>\<open>list_blobs\<close> with the prefix omitted or empty
  reports exactly these names, and \<^verbatim>\<open>search_blobs\<close> reports, in the same
  order, exactly those of them for which \<^verbatim>\<open>re.search(pattern, name)\<close> finds a
  match (a search anywhere in the name, not a full match). This holds for every pattern
  that compiles; for a pattern on which \<^verbatim>\<open>re.search\<close> raises, no name has a
  match and \<^verbatim>\<open>search_blobs\<close> reports no name but the failure text.
\<close>

theorem search_blobs_filters_listing:
  assumes "blob_service_client w = Some st"
    and "sdk_fault st (GetContainerClient c) = None"
    and "sdk_fault st (ListBlobs c None) = None"
    and "sdk_fault st (ListBlobs c (Some [])) = None"
    and "map_of (containers st) c = Some bs"
    and "default_arg prefix_arg [] = []"
  shows "fst (list_blobs c prefix_arg w)
           = Inr (if map fst bs \<noteq> []
                  then ''Found '' @ str_nat (length (map fst bs)) @ '' blobs in '' @ c @ '': ''
                       @ join '', '' (map fst bs)
                  else ''No blobs found in '' @ c @ ''.'')
       \<and> ((\<forall>n \<in> set (map fst bs). \<exists>m. re_search w pat n = Inr m) \<longrightarrow>
            fst (search_blobs c pat w)
              = Inr (if filter (\<lambda>n. re_search w pat n = Inr True) (map fst bs) \<noteq> []
                     then ''Found ''
                          @ str_nat (length (filter (\<lambda>n. re_search w pat n = Inr True) (map fst bs)))
                          @ '' matching blobs in '' @ c @ '': ''
                          @ join '', '' (filter (\<lambda>n. re_search w pat n = Inr True) (map fst bs))
                     else ''No blobs matching pattern '' @ quoted pat @ '' found in '' @ c @ ''.''))
       \<and> ((\<exists>n \<in> set (map fst bs). \<exists>e. re_search w pat n = Inl e) \<longrightarrow>
            (\<exists>e. fst (search_blobs c pat w) = Inr (''Error searching blobs: '' @ str_exn e)))"
proof (intro conjI impI)
  show "fst (list_blobs c prefix_arg w)
           = Inr (if map fst bs \<noteq> []
                  then ''Found '' @ str_nat (length (map fst bs)) @ '' blobs in '' @ c @ '': ''
                       @ join '', '' (map fst bs)
                  else ''No blobs found in '' @ c @ ''.'')"
    using assms by (simp only: list_blobs_on_listing)
next
  assume "\<forall>n \<in> set (map fst bs). \<exists>m. re_search w pat n = Inr m"
  then have "comprehension (re_search w pat) (map fst bs)
               = Inr (filter (\<lambda>n. re_search w pat n = Inr True) (map fst bs))"
    by (rule comprehension_compiled)
  with search_blobs_on_listing [OF assms(1,2,3,5), of pat]
  show "fst (search_blobs c pat w)
              = Inr (if filter (\<lambda>n. re_search w pat n = Inr True) (map fst bs) \<noteq> []
                     then ''Found ''
                          @ str_nat (length (filter (\<lambda>n. re_search w pat n = Inr True) (map fst bs)))
                          @ '' matching blobs in '' @ c @ '': ''
                          @ join '', '' (filter (\<lambda>n. re_search w pat n = Inr True) (map fst bs))
                     else ''No blobs matching pattern '' @ quoted pat @ '' found in '' @ c @ ''.'')"
    by simp
next
  assume "\<exists>n \<in> set (map fst bs). \<exists>e. re_search w pat n = Inl e"
  then obtain n e where "n \<in> set (map fst bs)" and "re_search w pat n = Inl e" by blast
  then obtain e' where "comprehension (re_search w pat) (map fst bs) = Inl e'"
    using comprehension_raises by blast
  with search_blobs_on_listing [OF assms(1,2,3,5), of pat]
  show "\<exists>e. fst (search_blobs c pat w) = Inr (''Error searching blobs: '' @ str_exn e)"
    by auto
qed

lemma example_matches:
  "re_search example_world ''^a'' ''abc'' = Inr True"
  "re_search example_world ''^a'' ''bcd'' = Inr False"
  "re_search example_world ''^a'' ''axy'' = Inr True"
  by (simp_all add: example_defs re_search_literal_def is_literal_def startswith_def)

theorem search_blobs_filters_listing_witness:
  "blob_service_client example_world = Some example_account
   \<and> sdk_fault example_account (GetContainerClient ''docs'') = None
   \<and> sdk_fault example_account (ListBlobs ''docs'' None) = None
   \<and> sdk_fault example_account (ListBlobs ''docs'' (Some [])) = None
   \<and> map_of (containers example_account) ''docs'' = Some docs
   \<and> map fst docs = [''abc'', ''bcd'', ''axy'']
   \<and> re_search example_world ''^a'' ''abc'' = Inr True
   \<and> re_search example_world ''^a'' ''bcd'' = Inr False
   \<and> re_search example_world ''^a'' ''axy'' = Inr True
   \<and> fst (list_blobs ''docs'' None example_world) = Inr ''Found 3 blobs in docs: abc, bcd, axy''
   \<and> fst (search_blobs ''docs'' ''^a'' example_world)
       = Inr ''Found 2 matching blobs in docs: abc, axy''"
proof -
  have client: "blob_service_client example_world = Some example_account"
    and quiet: "sdk_fault example_account call = None" for call
    by (simp_all add: example_defs)
  have container: "map_of (containers example_account) ''docs'' = Some docs"
    by (simp add: example_account_def account_def)
  have names: "map fst docs = [''abc'', ''bcd'', ''axy'']"
    by (simp add: docs_def)
  have omitted: "default_arg None [] = []"
    by (simp add: default_arg_def)
  have compiles: "\<forall>n \<in> set (map fst docs). \<exists>m. re_search example_world ''^a'' n = Inr m"
    by (auto simp add: names example_matches)
  note inst = search_blobs_filters_listing [OF client quiet quiet quiet container omitted, of "''^a''"]
  from inst have "fst (list_blobs ''docs'' None example_world)
                    = Inr (if map fst docs \<noteq> []
                           then ''Found '' @ str_nat (length (map fst docs)) @ '' blobs in ''
                                @ ''docs'' @ '': '' @ join '', '' (map fst docs)
                           else ''No blobs found in '' @ ''docs'' @ ''.'')"
    by (rule conjunct1)
  then have listed: "fst (list_blobs ''docs'' None example_world)
                    = Inr ''Found 3 blobs in docs: abc, bcd, axy''"
    by (simp add: names str_nat.simps)
  have kept: "filter (\<lambda>n. re_search example_world ''^a'' n = Inr True) (map fst docs)
                = [''abc'', ''axy'']"
    by (simp add: names example_matches)
  from inst compiles
  have "fst (search_blobs ''docs'' ''^a'' example_world)
          = Inr (if filter (\<lambda>n. re_search example_world ''^a'' n = Inr True) (map fst docs) \<noteq> []
                 then ''Found ''
                      @ str_nat (length (filter (\<lambda>n. re_search example_world ''^a'' n = Inr True)
                                           (map fst docs)))
                      @ '' matching blobs in '' @ ''docs'' @ '': ''
                      @ join '', '' (filter (\<lambda>n. re_search example_world ''^a'' n = Inr True)
                                       (map fst docs))
                 else ''No blobs matching pattern '' @ quoted ''^a'' @ '' found in '' @ ''docs'' @ ''.'')"
    by blast
  then have "fst (search_blobs ''docs'' ''^a'' example_world)
          = Inr ''Found 2 matching blobs in docs: abc, axy''"
    by (simp add: kept str_nat.simps)
  with listed have "fst (list_blobs ''docs'' None example_world)
                      = Inr ''Found 3 blobs in docs: abc, bcd, axy''
                    \<and> fst (search_blobs ''docs'' ''^a'' example_world)
                      = Inr ''Found 2 matching blobs in docs: abc, axy''"
    by simp
  then show ?thesis
    using client quiet container names example_matches by simp
qed

subsection \<open>A malformed pattern\<close>

text \<open>
  Claim C8, as stated, fails: the pattern is compiled by the first
  \<^verbatim>\<open>re.search\<close> of the comprehension, so over a container with no blobs a
  malformed pattern is never compiled and the no-match message is returned. Here the
  pattern \<^verbatim>\<open>(\<close>, on which the engine raises, is searched in the empty container.
\<close>

theorem malformed_pattern_empty_container_counterexample:
  "re_search example_world ''('' ''abc''
     = Inl (OtherException ''missing ), unterminated subpattern at position 0'')
   \<and> map_of (containers example_account) ''empty'' = Some []
   \<and> fst (search_blobs ''empty'' ''('' example_world)
       = Inr ''No blobs matching pattern '(' found in empty.''
   \<and> fst (search_blobs ''empty'' ''('' example_world)
       \<noteq> Inr (''Error searching blobs: '' @ ''missing ), unterminated subpattern at position 0'')"
  by (simp add: example_defs re_search_literal_def is_literal_def
      search_blobs_def py_try_def py_bind_def py_return_def
      sdk_get_container_client_def sdk_invoke_def log_event_def quoted_def)

text \<open>
  Claim C8, amended. For a container that the client lists without a failure and a
  pattern on which \<^verbatim>\<open>re.search\<close> raises whatever the string: when the
  container holds at least one blob, \<^verbatim>\<open>search_blobs\<close> returns the generic
  failure text of the search with the message of the pattern error; when the container
  holds no blob, it returns the no-match message.
\<close>

theorem malformed_pattern_search:
  assumes "blob_service_client w = Some st"
    and "sdk_fault st (GetContainerClient c) = None"
    and "sdk_fault st (ListBlobs c None) = None"
    and "map_of (containers st) c = Some bs"
    and "\<forall>s. re_search w pat s = Inl e"
  shows "(bs \<noteq> [] \<longrightarrow> fst (search_blobs c pat w) = Inr (''Error searching blobs: '' @ str_exn e))
       \<and> (bs = [] \<longrightarrow>
            fst (search_blobs c pat w)
              = Inr (''No blobs matching pattern '' @ quoted pat @ '' found in '' @ c @ ''.''))"
proof (intro conjI impI)
  assume "bs \<noteq> []"
  then have "map fst bs \<noteq> []" by simp
  then have "comprehension (re_search w pat) (map fst bs) = Inl e"
    using assms(5) by (rule comprehension_malformed)
  with search_blobs_on_listing [OF assms(1-4), of pat]
  show "fst (search_blobs c pat w) = Inr (''Error searching blobs: '' @ str_exn e)" by simp
next
  assume "bs = []"
  with search_blobs_on_listing [OF assms(1-4), of pat]
  show "fst (search_blobs c pat w)
          = Inr (''No blobs matching pattern '' @ quoted pat @ '' found in '' @ c @ ''.'')"
    by simp
qed

theorem malformed_pattern_search_witness:
  "blob_service_client example_world = Some example_account
   \<and> sdk_fault example_account (GetContainerClient ''docs'') = None
   \<and> sdk_fault example_account (ListBlobs ''docs'' None) = None
   \<and> map_of (containers example_account) ''docs'' = Some docs
   \<and> docs \<noteq> []
   \<and> (\<forall>s. re_search example_world ''('' s
            = Inl (OtherException ''missing ), unterminated subpattern at position 0''))
   \<and> fst (search_blobs ''docs'' ''('' example_world)
       = Inr ''Error searching blobs: missing ), unterminated subpattern at position 0''"
proof -
  have client: "blob_service_client example_world = Some example_account"
    and quiet: "sdk_fault example_account call = None" for call
    by (simp_all add: example_defs)
  have container: "map_of (containers example_account) ''docs'' = Some docs"
    by (simp add: example_account_def account_def)
  have nonempty: "docs \<noteq> []"
    by (simp add: docs_def)
  have malformed: "\<forall>s. re_search example_world ''('' s
                     = Inl (OtherException ''missing ), unterminated subpattern at position 0'')"
    by (simp add: example_defs re_search_literal_def is_literal_def)
  from malformed_pattern_search [OF client quiet quiet container malformed] nonempty
  have "fst (search_blobs ''docs'' ''('' example_world)
          = Inr ''Error searching blobs: missing ), unterminated subpattern at position 0''"
    by simp
  with client quiet container nonempty malformed show ?thesis by simp
qed

subsection \<open>Download: the destination is opened before the blob is fetched\<close>

text \<open>
  Claim C10, as stated, fails: when the destination cannot be opened for writing, the
  failure of \<^verbatim>\<open>open\<close> comes first, the blob is never requested, and the
  generic failure text is returned instead of the not-found message. Here the blob is
  missing and the destination is a directory: the only SDK call is
  \<^verbatim>\<open>get_blob_client\<close>, and the directory stays as it is.
\<close>

theorem download_missing_blob_to_directory_counterexample:
  "find_blob example_account ''docs'' ''missing'' = Inl no_blob
   \<and> fs example_world ''out'' = Some Directory
   \<and> fst (download_blob ''docs'' ''missing'' (Some ''out'') example_world)
       = Inr (''Error downloading blob: [Errno 21] Is a directory: '' @ quoted ''out'')
   \<and> fst (download_blob ''docs'' ''missing'' (Some ''out'') example_world)
       \<noteq> Inr (''Blob '' @ quoted ''missing'' @ '' not found in container '' @ quoted ''docs'' @ ''.'')
   \<and> trace (snd (download_blob ''docs'' ''missing'' (Some ''out'') example_world))
       = [SdkCall (GetBlobClient ''docs'' ''missing''), FsAccess (OpenWrite ''out'')]
   \<and> fs (snd (download_blob ''docs'' ''missing'' (Some ''out'') example_world)) ''out''
       = Some Directory"
  by (simp add: example_defs find_blob_def if_not_def
      download_blob_def Let_def py_try_def py_bind_def py_return_def
      sdk_get_blob_client_def sdk_invoke_def log_event_def open_wb_def quoted_def
      py_repr_def repr_quote_def repr_char_def)

text \<open>
  Claim C10, amended. \<^verbatim>\<open>download_blob\<close> opens the destination for writing
  before it requests the blob. With a client that hands out the blob client:

  \<^item> when the destination can be opened (the path is not empty, it is not a directory
    and the operating system does not refuse), the blob or its container does not exist
    and the client raises no other failure, the tool returns the not-found message and
    the destination is left as an empty file, created or truncated;

  \<^item> when the destination cannot be opened, the blob is never requested (the only SDK
    call is \<^verbatim>\<open>get_blob_client\<close>), the filesystem and the account are unchanged,
    and the generic failure text carrying the error of \<^verbatim>\<open>open\<close> is returned:
    the refusal of the operating system (any exception other than
    \<^verbatim>\<open>ResourceNotFoundError\<close>), Errno 2 for an empty path, Errno 21 for a
    directory. This holds whether or not the blob exists.
\<close>

theorem download_creates_file_before_fetching:
  assumes "blob_service_client w = Some st"
    and "sdk_fault st (GetBlobClient c b) = None"
    and "p = if_not path_arg (basename b)"
  shows "(io_fault w (OpenWrite p) = None \<and> p \<noteq> [] \<and> fs w p \<noteq> Some Directory
          \<and> sdk_fault st (DownloadBlob c b) = None \<and> (\<exists>e. find_blob st c b = Inl e) \<longrightarrow>
            fst (download_blob c b path_arg w)
              = Inr (''Blob '' @ quoted b @ '' not found in container '' @ quoted c @ ''.'')
            \<and> fs (snd (download_blob c b path_arg w)) p = Some (File []))
       \<and> ((\<exists>e. io_fault w (OpenWrite p) = Some e) \<or> p = [] \<or> fs w p = Some Directory \<longrightarrow>
            trace (snd (download_blob c b path_arg w))
              = trace w @ [SdkCall (GetBlobClient c b), FsAccess (OpenWrite p)]
            \<and> fs (snd (download_blob c b path_arg w)) = fs w
            \<and> blob_service_client (snd (download_blob c b path_arg w)) = Some st)
       \<and> (\<forall>e. io_fault w (OpenWrite p) = Some e \<and> (\<forall>m. e \<noteq> ResourceNotFoundError m) \<longrightarrow>
            fst (download_blob c b path_arg w) = Inr (''Error downloading blob: '' @ str_exn e))
       \<and> (io_fault w (OpenWrite p) = None \<and> p = [] \<longrightarrow>
            fst (download_blob c b path_arg w)
              = Inr (''Error downloading blob: [Errno 2] No such file or directory: '' @ py_repr p))
       \<and> (io_fault w (OpenWrite p) = None \<and> p \<noteq> [] \<and> fs w p = Some Directory \<longrightarrow>
            fst (download_blob c b path_arg w)
              = Inr (''Error downloading blob: [Errno 21] Is a directory: '' @ py_repr p))"
proof (intro conjI impI allI)
  assume "io_fault w (OpenWrite p) = None \<and> p \<noteq> [] \<and> fs w p \<noteq> Some Directory
          \<and> sdk_fault st (DownloadBlob c b) = None \<and> (\<exists>e. find_blob st c b = Inl e)"
  with assms show
    "fst (download_blob c b path_arg w)
       = Inr (''Blob '' @ quoted b @ '' not found in container '' @ quoted c @ ''.'')"
    "fs (snd (download_blob c b path_arg w)) p = Some (File [])"
    by (auto simp add: download_blob_def Let_def py_try_def py_bind_def py_return_def
        sdk_get_blob_client_def sdk_invoke_def log_event_def open_wb_def find_blob_def
        no_container_def no_blob_def
        split: option.splits sum.splits prod.splits exn.splits)
next
  assume "(\<exists>e. io_fault w (OpenWrite p) = Some e) \<or> p = [] \<or> fs w p = Some Directory"
  with assms show
    "trace (snd (download_blob c b path_arg w))
       = trace w @ [SdkCall (GetBlobClient c b), FsAccess (OpenWrite p)]"
    "fs (snd (download_blob c b path_arg w)) = fs w"
    "blob_service_client (snd (download_blob c b path_arg w)) = Some st"
    by (auto simp add: download_blob_def Let_def py_try_def py_bind_def py_return_def
        sdk_get_blob_client_def sdk_invoke_def log_event_def open_wb_def
        split: option.splits exn.splits)
next
  fix e
  assume "io_fault w (OpenWrite p) = Some e \<and> (\<forall>m. e \<noteq> ResourceNotFoundError m)"
  with assms show
    "fst (download_blob c b path_arg w) = Inr (''Error downloading blob: '' @ str_exn e)"
    by (cases e)
       (auto simp add: download_blob_def Let_def py_try_def py_bind_def py_return_def
        sdk_get_blob_client_def sdk_invoke_def log_event_def open_wb_def)
next
  assume "io_fault w (OpenWrite p) = None \<and> p = []"
  with assms show
    "fst (download_blob c b path_arg w)
       = Inr (''Error downloading blob: [Errno 2] No such file or directory: '' @ py_repr p)"
    by (auto simp add: download_blob_def Let_def py_try_def py_bind_def py_return_def
        sdk_get_blob_client_def sdk_invoke_def log_event_def open_wb_def)
next
  assume "io_fault w (OpenWrite p) = None \<and> p \<noteq> [] \<and> fs w p = Some Directory"
  with assms show
    "fst (download_blob c b path_arg w)
       = Inr (''Error downloading blob: [Errno 21] Is a directory: '' @ py_repr p)"
    by (auto simp add: download_blob_def Let_def py_try_def py_bind_def py_return_def
        sdk_get_blob_client_def sdk_invoke_def log_event_def open_wb_def)
qed

lemma py_repr_examples:
  "py_repr ''out'' = quoted ''out''"
  "py_repr [] = quoted []"
  by (simp_all add: py_repr_def repr_quote_def repr_char_def quoted_def)

theorem download_creates_file_before_fetching_witness:
  "blob_service_client example_world = Some example_account
   \<and> sdk_fault example_account (GetBlobClient ''docs'' ''missing'') = None
   \<and> sdk_fault example_account (DownloadBlob ''docs'' ''missing'') = None
   \<and> find_blob example_account ''docs'' ''missing'' = Inl no_blob
   \<and> ''old.bin'' = if_not (Some ''old.bin'') (basename ''missing'')
   \<and> io_fault example_world (OpenWrite ''old.bin'') = None
   \<and> fs example_world ''old.bin'' = Some (File ''stale'')
   \<and> fst (download_blob ''docs'' ''missing'' (Some ''old.bin'') example_world)
       = Inr ''Blob 'missing' not found in container 'docs'.''
   \<and> fs (snd (download_blob ''docs'' ''missing'' (Some ''old.bin'') example_world)) ''old.bin''
       = Some (File [])
   \<and> ''out'' = if_not (Some ''out'') (basename ''abc'')
   \<and> io_fault example_world (OpenWrite ''out'') = None
   \<and> fs example_world ''out'' = Some Directory
   \<and> fst (download_blob ''docs'' ''abc'' (Some ''out'') example_world)
       = Inr (''Error downloading blob: [Errno 21] Is a directory: '' @ quoted ''out'')
   \<and> trace (snd (download_blob ''docs'' ''abc'' (Some ''out'') example_world))
       = [SdkCall (GetBlobClient ''docs'' ''abc''), FsAccess (OpenWrite ''out'')]
   \<and> fs (snd (download_blob ''docs'' ''abc'' (Some ''out'') example_world)) = fs example_world
   \<and> [] = if_not None (basename ''reports/'')
   \<and> fst (download_blob ''docs'' ''reports/'' None example_world)
       = Inr (''Error downloading blob: [Errno 2] No such file or directory: '' @ quoted [])
   \<and> trace (snd (download_blob ''docs'' ''reports/'' None example_world))
       = [SdkCall (GetBlobClient ''docs'' ''reports/''), FsAccess (OpenWrite [])]
   \<and> blob_service_client locked_world = Some example_account
   \<and> io_fault locked_world (OpenWrite ''locked.bin'')
       = Some (OtherException ''[Errno 13] Permission denied: 'locked.bin' '')
   \<and> fst (download_blob ''docs'' ''abc'' (Some ''locked.bin'') locked_world)
       = Inr ''Error downloading blob: [Errno 13] Permission denied: 'locked.bin' ''
   \<and> trace (snd (download_blob ''docs'' ''abc'' (Some ''locked.bin'') locked_world))
       = [SdkCall (GetBlobClient ''docs'' ''abc''), FsAccess (OpenWrite ''locked.bin'')]"
proof -
  have client: "blob_service_client example_world = Some example_account"
    and quiet: "sdk_fault example_account call = None"
    and io: "io_fault example_world access = None"
    and before: "fs example_world ''old.bin'' = Some (File ''stale'')"
    and dir: "fs example_world ''out'' = Some Directory"
    and fresh: "trace example_world = []"
    for call access
    by (simp_all add: example_defs)
  have locked: "blob_service_client locked_world = Some example_account"
    and refused: "io_fault locked_world (OpenWrite ''locked.bin'')
                    = Some (OtherException ''[Errno 13] Permission denied: 'locked.bin' '')"
    and fresh': "trace locked_world = []"
    by (simp_all add: locked_world_def example_defs)
  have missing: "find_blob example_account ''docs'' ''missing'' = Inl no_blob"
    by (simp add: find_blob_def example_defs)
  have path1: "''old.bin'' = if_not (Some ''old.bin'') (basename ''missing'')"
    and path2: "''out'' = if_not (Some ''out'') (basename ''abc'')"
    and path3: "[] = if_not None (basename ''reports/'')"
    and path4: "''locked.bin'' = if_not (Some ''locked.bin'') (basename ''abc'')"
    by (simp_all add: if_not_def basename_def)
  note openable = download_creates_file_before_fetching
                    [OF client quiet path1]
  note directory = download_creates_file_before_fetching
                    [OF client quiet path2]
  note empty = download_creates_file_before_fetching
                    [OF client quiet path3]
  note refusal = download_creates_file_before_fetching
                    [OF locked quiet path4]
  have a: "fst (download_blob ''docs'' ''missing'' (Some ''old.bin'') example_world)
          = Inr ''Blob 'missing' not found in container 'docs'.''
        \<and> fs (snd (download_blob ''docs'' ''missing'' (Some ''old.bin'') example_world)) ''old.bin''
          = Some (File [])"
    using openable io before quiet missing by (simp add: quoted_def)
  have b: "fst (download_blob ''docs'' ''abc'' (Some ''out'') example_world)
          = Inr (''Error downloading blob: [Errno 21] Is a directory: '' @ quoted ''out'')
        \<and> trace (snd (download_blob ''docs'' ''abc'' (Some ''out'') example_world))
          = [SdkCall (GetBlobClient ''docs'' ''abc''), FsAccess (OpenWrite ''out'')]
        \<and> fs (snd (download_blob ''docs'' ''abc'' (Some ''out'') example_world)) = fs example_world"
    using directory io dir fresh by (simp add: py_repr_examples)
  have c: "fst (download_blob ''docs'' ''reports/'' None example_world)
          = Inr (''Error downloading blob: [Errno 2] No such file or directory: '' @ quoted [])
        \<and> trace (snd (download_blob ''docs'' ''reports/'' None example_world))
          = [SdkCall (GetBlobClient ''docs'' ''reports/''), FsAccess (OpenWrite [])]"
    using empty io fresh by (simp add: py_repr_examples)
  have d: "fst (download_blob ''docs'' ''abc'' (Some ''locked.bin'') locked_world)
          = Inr ''Error downloading blob: [Errno 13] Permission denied: 'locked.bin' ''
        \<and> trace (snd (download_blob ''docs'' ''abc'' (Some ''locked.bin'') locked_world))
          = [SdkCall (GetBlobClient ''docs'' ''abc''), FsAccess (OpenWrite ''locked.bin'')]"
    using refusal refused fresh' by simp
  from a b c d client quiet missing path1 path2 path3 io before dir locked refused
  show ?thesis by simp
qed

end
